theory Spec2Isabelle
  imports Complex_Main "HOL-Library.Char_ord" "HOL-Library.List_Lexorder" "HOL-Library.Multiset"
begin

section \<open>Holdings tables\<close>

text \<open>
  A row of a holdings table as \<open>UnifiedScraper.fetch_holdings\<close> builds it: the columns
  \<open>stock_id\<close>, \<open>stock_name\<close>, \<open>shares\<close>, \<open>weight\<close>, \<open>amount\<close>. The type \<open>'k\<close> of
  \<open>stock_id\<close> is any linearly ordered type: after \<open>read_csv\<close> the column holds either
  integers or strings. The three numeric columns are Python floats; they are modelled as
  exact real numbers, so rounding, infinities and NaN are outside this development.
\<close>

record 'k row =
  stock_id :: 'k
  stock_name :: string
  shares :: real
  weight :: real
  amount :: real

text \<open>
  A DataFrame either has no \<open>ETF\<close> column (\<open>Untagged\<close>, what the scraper returns and what
  the snapshot files hold) or has one (\<open>Tagged\<close>, every row paired with its fund code).
\<close>

datatype 'k frame = Untagged "'k row list" | Tagged "(string \<times> 'k row) list"

fun has_ETF :: "'k frame \<Rightarrow> bool" where
  "has_ETF (Untagged rs) = False"
| "has_ETF (Tagged trs) = True"

fun plain_rows :: "'k frame \<Rightarrow> 'k row list" where
  "plain_rows (Untagged rs) = rs"
| "plain_rows (Tagged trs) = map snd trs"

text \<open>\<open>if 'ETF' not in df.columns: df['ETF'] = '00981A'\<close>, an assignment in place.\<close>

fun ensure_ETF :: "'k frame \<Rightarrow> 'k frame" where
  "ensure_ETF (Untagged rs) = Tagged (map (\<lambda>r. (''00981A'', r)) rs)"
| "ensure_ETF (Tagged trs) = Tagged trs"

text \<open>The rows of a table with their fund codes, as the comparison sees them after the
  assignment above: \<open>00981A\<close> for every row of a table that had no \<open>ETF\<close> column.\<close>

fun tagged_rows :: "'k frame \<Rightarrow> (string \<times> 'k row) list" where
  "tagged_rows (Untagged rs) = map (\<lambda>r. (''00981A'', r)) rs"
| "tagged_rows (Tagged trs) = trs"

section \<open>The pandas operations used by the comparison\<close>

text \<open>\<open>Series.unique\<close> and \<open>Index.unique\<close>: the distinct values in order of first appearance.\<close>

definition unique :: "'a list \<Rightarrow> 'a list" where
  "unique xs = rev (remdups (rev xs))"

text \<open>\<open>df[df['ETF'] == etf].set_index('stock_id')\<close>: the rows of one fund, in table order,
  indexed by \<open>stock_id\<close>. \<open>set_index\<close> does not check that the labels are unique.\<close>

definition select_ETF :: "(string \<times> 'k row) list \<Rightarrow> string \<Rightarrow> 'k row list" where
  "select_ETF trs etf = map snd (filter (\<lambda>tr. fst tr = etf) trs)"

definition index :: "'k row list \<Rightarrow> 'k list" where
  "index rs = map stock_id rs"

text \<open>
  \<open>Index.difference(other)\<close> with the default \<open>sort=None\<close> (pandas 2): empty when the two
  indexes are equal; the distinct labels of \<open>self\<close> in their own order when \<open>other\<close> is
  empty (this shortcut does not sort); otherwise the distinct labels of \<open>self\<close> that are
  not in \<open>other\<close>, sorted.
\<close>

definition index_difference :: "'k::linorder list \<Rightarrow> 'k list \<Rightarrow> 'k list" where
  "index_difference self other =
     (if self = other then []
      else if other = [] then unique self
      else sort (unique (filter (\<lambda>k. k \<notin> set other) self)))"

text \<open>\<open>Index.intersection(other)\<close> with the default \<open>sort=False\<close>: the distinct labels of
  \<open>self\<close> that are in \<open>other\<close>, in the order of \<open>self\<close>.\<close>

definition index_intersection :: "'k list \<Rightarrow> 'k list \<Rightarrow> 'k list" where
  "index_intersection self other = unique (filter (\<lambda>k. k \<in> set other) self)"

text \<open>\<open>df.loc[labels]\<close> for labels that all occur in the index: for each label in turn,
  every row carrying it, in table order.\<close>

definition loc :: "'k row list \<Rightarrow> 'k list \<Rightarrow> 'k row list" where
  "loc rs labels = concat (map (\<lambda>k. filter (\<lambda>r. stock_id r = k) rs) labels)"

section \<open>compare\_holdings\<close>

text \<open>A row of the \<open>changed\<close> table, with its index label \<open>ch_stock_id\<close>, and the
  dictionary \<open>{'new': ..., 'exit': ..., 'changed': ...}\<close> stored for a fund.\<close>

record 'k changed_row =
  ch_stock_id :: 'k
  ch_stock_name :: string
  weight_prev :: real
  weight_curr :: real
  weight_diff :: real
  shares_prev :: real
  shares_curr :: real
  shares_diff :: real

record 'k delta =
  d_new :: "'k row list"
  d_exit :: "'k row list"
  d_changed :: "'k changed_row list"

text \<open>\<open>changed_mask = (weight_diff.abs() > 0.001) | (shares_diff.abs() > 0)\<close> on one pair of
  aligned rows (current, previous).\<close>

definition changed_mask :: "'k row \<times> 'k row \<Rightarrow> bool" where
  "changed_mask cp =
     (let weight_diff = weight (fst cp) - weight (snd cp);
          shares_diff = shares (fst cp) - shares (snd cp)
      in \<bar>weight_diff\<bar> > 0.001 \<or> \<bar>shares_diff\<bar> > 0)"

text \<open>The row of \<open>changed_df\<close> for one pair of aligned rows: the name from the current
  table, both weights and both share counts, and the two differences.\<close>

definition changed_entry :: "'k row \<times> 'k row \<Rightarrow> 'k changed_row" where
  "changed_entry cp =
     \<lparr>ch_stock_id = stock_id (fst cp),
      ch_stock_name = stock_name (fst cp),
      weight_prev = weight (snd cp),
      weight_curr = weight (fst cp),
      weight_diff = weight (fst cp) - weight (snd cp),
      shares_prev = shares (snd cp),
      shares_curr = shares (fst cp),
      shares_diff = shares (fst cp) - shares (snd cp)\<rparr>"

text \<open>
  \<open>sort_values(by='weight_diff', ascending=False)\<close>. pandas reverses the column, sorts it
  ascending and reverses the result; the sort is modelled as a stable one, so rows of equal
  \<open>weight_diff\<close> keep their relative order.
\<close>

definition sort_values :: "'k changed_row list \<Rightarrow> 'k changed_row list" where
  "sort_values rows = rev (sort_key weight_diff (rev rows))"

text \<open>
  The body of the loop, for one fund. The two selections \<open>curr_common\<close> and \<open>prev_common\<close>
  are subtracted label by label. When their indexes are equal (always so when no common
  \<open>stock_id\<close> is duplicated) pandas subtracts position by position. Otherwise it has to
  align two Series on duplicated labels; what follows depends on the pandas version and
  is not modelled: the model stops with \<open>NonUniqueAlignment\<close>. The other values of
  \<open>error\<close> are the Python exceptions of the scraper and of \<open>read_csv\<close>.
\<close>

datatype error = NonUniqueAlignment | AttributeError | TypeError | ValueError | ReadError

definition compare_etf :: "'k::linorder row list \<Rightarrow> 'k row list \<Rightarrow> error + 'k delta" where
  "compare_etf curr_etf prev_etf =
     (let new_stocks = index_difference (index curr_etf) (index prev_etf);
          new_df = loc curr_etf new_stocks;
          exited_stocks = index_difference (index prev_etf) (index curr_etf);
          exit_df = loc prev_etf exited_stocks;
          common_stocks = index_intersection (index curr_etf) (index prev_etf);
          curr_common = loc curr_etf common_stocks;
          prev_common = loc prev_etf common_stocks
      in if index curr_common \<noteq> index prev_common then Inl NonUniqueAlignment
         else
           let changed_df = map changed_entry (filter changed_mask (zip curr_common prev_common))
           in Inr \<lparr>d_new = new_df, d_exit = exit_df, d_changed = sort_values changed_df\<rparr>)"

text \<open>\<open>for etf in etfs: ... changes[etf] = {...}\<close>. The dictionary is an association list in
  insertion order; an exception leaves the loop.\<close>

fun compare_loop ::
  "(string \<times> 'k::linorder row) list \<Rightarrow> (string \<times> 'k row) list \<Rightarrow> string list
     \<Rightarrow> error + (string \<times> 'k delta) list" where
  "compare_loop c p [] = Inr []"
| "compare_loop c p (etf # etfs) =
     (case compare_etf (select_ETF c etf) (select_ETF p etf) of
        Inl e \<Rightarrow> Inl e
      | Inr d \<Rightarrow> (case compare_loop c p etfs of
                   Inl e \<Rightarrow> Inl e
                 | Inr ds \<Rightarrow> Inr ((etf, d) # ds)))"

text \<open>
  \<open>compare_holdings(df_curr, df_prev)\<close>. The two arguments are objects the function may
  assign to, so the model returns their final state together with the result.
\<close>

definition compare_holdings ::
  "'k::linorder frame \<Rightarrow> 'k frame \<Rightarrow> 'k frame \<times> 'k frame \<times> (error + (string \<times> 'k delta) list)" where
  "compare_holdings df_curr df_prev =
     (let df_curr' = ensure_ETF df_curr;
          df_prev' = ensure_ETF df_prev;
          etfs = unique (map fst (tagged_rows df_curr'))
      in (df_curr', df_prev',
          compare_loop (tagged_rows df_curr') (tagged_rows df_prev') etfs))"

section \<open>UnifiedScraper.fetch\_holdings\<close>

text \<open>The value \<open>json.loads\<close> returns: \<open>None\<close>, a bool, a number, a str, a list or a dict
  (an association list, looked up from the front).\<close>

datatype json = JNull | JBool bool | JNum real | JStr string
  | JArr "json list" | JObj "(string \<times> json) list"

text \<open>
  What the network and the HTML parser give for a URL, up to the decoded content of the
  \<open>DataAsset\<close> element: \<open>requests.get\<close> or \<open>raise_for_status\<close> raised; the page has no
  \<open>div\<close> with id \<open>DataAsset\<close>; the element has no \<open>data-content\<close> attribute; \<open>json.loads\<close>
  raised; or the decoded value.
\<close>

datatype fetched = RequestFailed | NoDataAsset | NoDataContent | BadJson | Data json

definition url_map :: "string \<Rightarrow> string option" where
  "url_map etf_code =
     (if etf_code = ''00981A''
      then Some ''https://www.ezmoney.com.tw/ETF/Fund/Info?fundCode=49YTW'' else None)"

text \<open>\<open>for x in v\<close>: a list gives its elements, a dict its keys, a str its characters;
  anything else is not iterable.\<close>

fun py_iter :: "json \<Rightarrow> error + json list" where
  "py_iter (JArr xs) = Inr xs"
| "py_iter (JObj kvs) = Inr (map (\<lambda>kv. JStr (fst kv)) kvs)"
| "py_iter (JStr s) = Inr (map (\<lambda>c. JStr [c]) s)"
| "py_iter _ = Inl TypeError"

text \<open>\<open>v.get(key, default)\<close>: only a dict has \<open>get\<close>.\<close>

fun py_get :: "json \<Rightarrow> string \<Rightarrow> json \<Rightarrow> error + json" where
  "py_get (JObj kvs) key dflt = (case map_of kvs key of Some v \<Rightarrow> Inr v | None \<Rightarrow> Inr dflt)"
| "py_get _ key dflt = Inl AttributeError"

text \<open>\<open>v.strip()\<close>: only a str has \<open>strip\<close>; it removes the blanks at both ends
  (the ASCII ones here: space, tab, line feed, vertical tab, form feed, carriage return
  and the four separators 28 to 31).\<close>

definition isspace :: "char \<Rightarrow> bool" where
  "isspace c = (of_char c \<in> {9, 10, 11, 12, 13, 28, 29, 30, 31, 32 :: nat})"

definition strip :: "string \<Rightarrow> string" where
  "strip s = rev (dropWhile isspace (rev (dropWhile isspace s)))"

fun py_strip :: "json \<Rightarrow> error + string" where
  "py_strip (JStr s) = Inr (strip s)"
| "py_strip _ = Inl AttributeError"

text \<open>\<open>float(v)\<close>. The conversion of a str is a parameter \<open>str_float\<close>, \<open>None\<close> where
  Python raises \<open>ValueError\<close>.\<close>

fun py_float :: "(string \<Rightarrow> real option) \<Rightarrow> json \<Rightarrow> error + real" where
  "py_float str_float (JNum r) = Inr r"
| "py_float str_float (JBool b) = Inr (if b then 1 else 0)"
| "py_float str_float (JStr s) =
     (case str_float s of Some r \<Rightarrow> Inr r | None \<Rightarrow> Inl ValueError)"
| "py_float str_float _ = Inl TypeError"

definition and_then :: "error + 'a \<Rightarrow> ('a \<Rightarrow> error + 'b) \<Rightarrow> error + 'b" where
  "and_then m f = (case m of Inl e \<Rightarrow> Inl e | Inr x \<Rightarrow> f x)"

text \<open>The dictionary appended for one \<open>detail\<close>; its five entries are evaluated in order.\<close>

definition detail_row :: "(string \<Rightarrow> real option) \<Rightarrow> json \<Rightarrow> error + string row" where
  "detail_row str_float detail =
     and_then (and_then (py_get detail ''DetailCode'' (JStr [])) py_strip) (\<lambda>sid.
     and_then (and_then (py_get detail ''DetailName'' (JStr [])) py_strip) (\<lambda>sname.
     and_then (and_then (py_get detail ''Share'' (JNum 0)) (py_float str_float)) (\<lambda>sh.
     and_then (and_then (py_get detail ''NavRate'' (JNum 0)) (py_float str_float)) (\<lambda>w.
     and_then (and_then (py_get detail ''Amount'' (JNum 0)) (py_float str_float)) (\<lambda>a.
     Inr \<lparr>stock_id = sid, stock_name = sname, shares = sh, weight = w, amount = a\<rparr>)))))"

text \<open>\<open>for detail in item['Details']: holdings.append({...})\<close>.\<close>

fun details_loop ::
  "(string \<Rightarrow> real option) \<Rightarrow> string row list \<Rightarrow> json list \<Rightarrow> error + string row list" where
  "details_loop str_float holdings [] = Inr holdings"
| "details_loop str_float holdings (detail # details) =
     and_then (detail_row str_float detail)
       (\<lambda>r. details_loop str_float (holdings @ [r]) details)"

text \<open>\<open>item.get('AssetCode') == 'ST' and 'Details' in item\<close>, then the inner loop.\<close>

definition item_step ::
  "(string \<Rightarrow> real option) \<Rightarrow> string row list \<Rightarrow> json \<Rightarrow> error + string row list" where
  "item_step str_float holdings item =
     and_then (py_get item ''AssetCode'' JNull) (\<lambda>code.
       if code = JStr ''ST''
       then (case item of
               JObj kvs \<Rightarrow>
                 (case map_of kvs ''Details'' of
                    Some ds \<Rightarrow> and_then (py_iter ds) (details_loop str_float holdings)
                  | None \<Rightarrow> Inr holdings)
             | _ \<Rightarrow> Inl TypeError)
       else Inr holdings)"

fun items_loop ::
  "(string \<Rightarrow> real option) \<Rightarrow> string row list \<Rightarrow> json list \<Rightarrow> error + string row list" where
  "items_loop str_float holdings [] = Inr holdings"
| "items_loop str_float holdings (item # items) =
     and_then (item_step str_float holdings item)
       (\<lambda>holdings'. items_loop str_float holdings' items)"

definition parse_holdings :: "(string \<Rightarrow> real option) \<Rightarrow> json \<Rightarrow> error + string row list" where
  "parse_holdings str_float data = and_then (py_iter data) (items_loop str_float [])"

text \<open>
  \<open>fetch_holdings(etf_code)\<close>: \<open>None\<close> for an unknown code, a failed request, a page
  without the element, any exception while decoding and converting (the whole \<open>try\<close>
  block is left), and for an empty list of holdings; otherwise the DataFrame of the rows.
\<close>

definition fetch_holdings ::
  "(string \<Rightarrow> real option) \<Rightarrow> (string \<Rightarrow> fetched) \<Rightarrow> string \<Rightarrow> string frame option" where
  "fetch_holdings str_float web etf_code =
     (case url_map etf_code of
        None \<Rightarrow> None
      | Some url \<Rightarrow>
          (case web url of
             RequestFailed \<Rightarrow> None
           | NoDataAsset \<Rightarrow> None
           | NoDataContent \<Rightarrow> None
           | BadJson \<Rightarrow> None
           | Data data \<Rightarrow>
               (case parse_holdings str_float data of
                  Inl e \<Rightarrow> None
                | Inr holdings \<Rightarrow> if holdings = [] then None else Some (Untagged holdings))))"

section \<open>monitor\_etfs\<close>

text \<open>
  The output directory \<open>etf_data\<close>: file names with their contents, names distinct. A
  snapshot file holds a table (\<open>to_csv\<close> followed by \<open>read_csv\<close> is taken to give the table
  back); a report holds the changes it was rendered from.
\<close>

datatype content = Snapshot "string frame" | Report "(string \<times> string delta) list" | Other

type_synonym dir = "(string \<times> content) list"

definition listdir :: "dir \<Rightarrow> string list" where
  "listdir d = map fst d"

definition write_file :: "dir \<Rightarrow> string \<Rightarrow> content \<Rightarrow> dir" where
  "write_file d name f = (name, f) # filter (\<lambda>e. fst e \<noteq> name) d"

definition read_csv :: "dir \<Rightarrow> string \<Rightarrow> error + string frame" where
  "read_csv d name = (case map_of d name of Some (Snapshot df) \<Rightarrow> Inr df | _ \<Rightarrow> Inl ReadError)"

definition startswith :: "string \<Rightarrow> string \<Rightarrow> bool" where
  "startswith s p = (take (length p) s = p)"

definition endswith :: "string \<Rightarrow> string \<Rightarrow> bool" where
  "endswith s p = (length p \<le> length s \<and> drop (length s - length p) s = p)"

text \<open>\<open>sorted([f for f in os.listdir(OUTPUT_DIR)
  if f.startswith('etf_holdings_') and f.endswith('.csv')])\<close>\<close>

definition snapshot_files :: "dir \<Rightarrow> string list" where
  "snapshot_files d =
     sort (filter (\<lambda>f. startswith f ''etf_holdings_'' \<and> endswith f ''.csv'') (listdir d))"

text \<open>\<open>if len(files) >= 2: prev_file = files[-2]; curr_file = files[-1]\<close>\<close>

definition latest_two :: "string list \<Rightarrow> (string \<times> string) option" where
  "latest_two files =
     (if length files \<ge> 2
      then Some (files ! (length files - 2), files ! (length files - 1))
      else None)"

text \<open>What the comparison phase of a run came to.\<close>

datatype outcome =
    NoData
  | NotEnoughHistory
  | ComparisonFailed error
  | Reported string string "(string \<times> string delta) list"

definition snapshot_name :: "string \<Rightarrow> string" where
  "snapshot_name timestamp = ''etf_holdings_'' @ timestamp @ ''.csv''"

text \<open>\<open>final_df.to_csv(filename, ...)\<close> with the file name of the day.\<close>

definition save_snapshot :: "dir \<Rightarrow> string \<Rightarrow> string frame \<Rightarrow> dir" where
  "save_snapshot d timestamp final_df = write_file d (snapshot_name timestamp) (Snapshot final_df)"

definition report_name :: "string \<Rightarrow> string" where
  "report_name date_str = ''report_'' @ date_str @ ''.html''"

text \<open>\<open>generate_html_report\<close>, as far as the output directory goes.\<close>

definition generate_html_report :: "dir \<Rightarrow> (string \<times> string delta) list \<Rightarrow> string \<Rightarrow> dir" where
  "generate_html_report d diff_data date_str = write_file d (report_name date_str) (Report diff_data)"

text \<open>The comparison phase, after the snapshot of the day has been written.\<close>

definition comparison :: "dir \<Rightarrow> string \<Rightarrow> dir \<times> outcome" where
  "comparison d timestamp =
     (case latest_two (snapshot_files d) of
        None \<Rightarrow> (d, NotEnoughHistory)
      | Some (prev_file, curr_file) \<Rightarrow>
          (case read_csv d curr_file of
             Inl e \<Rightarrow> (d, ComparisonFailed e)
           | Inr df_curr \<Rightarrow>
               (case read_csv d prev_file of
                  Inl e \<Rightarrow> (d, ComparisonFailed e)
                | Inr df_prev \<Rightarrow>
                    (case snd (snd (compare_holdings df_curr df_prev)) of
                       Inl e \<Rightarrow> (d, ComparisonFailed e)
                     | Inr diff_data \<Rightarrow>
                         (generate_html_report d diff_data timestamp,
                          Reported prev_file curr_file diff_data)))))"

text \<open>
  \<open>monitor_etfs()\<close> with its one target fund: the date stamp of the run, the directory
  before the run; the directory after it and the outcome.
\<close>

definition monitor_etfs ::
  "(string \<Rightarrow> real option) \<Rightarrow> (string \<Rightarrow> fetched) \<Rightarrow> string \<Rightarrow> dir \<Rightarrow> dir \<times> outcome" where
  "monitor_etfs str_float web timestamp d =
     (case fetch_holdings str_float web ''00981A'' of
        None \<Rightarrow> (d, NoData)
      | Some df \<Rightarrow>
          if plain_rows df = [] then (d, NoData)
          else comparison (save_snapshot d timestamp df) timestamp)"

section \<open>Example tables\<close>

text \<open>Two consecutive snapshots of one fund, with numeric stock codes: one position
  entered, one exited, one changed in weight by 0.0011, one in shares only, one moved in
  weight by 0.0009.\<close>

definition ex_prev :: "nat frame" where
  "ex_prev = Untagged
     [\<lparr>stock_id = 2330, stock_name = ''TSMC'', shares = 1000, weight = 5, amount = 0\<rparr>,
      \<lparr>stock_id = 2317, stock_name = ''Hon Hai'', shares = 500, weight = 2, amount = 0\<rparr>,
      \<lparr>stock_id = 2454, stock_name = ''MediaTek'', shares = 300, weight = 1.5, amount = 0\<rparr>,
      \<lparr>stock_id = 2412, stock_name = ''Chunghwa'', shares = 200, weight = 1, amount = 0\<rparr>]"

definition ex_curr :: "nat frame" where
  "ex_curr = Untagged
     [\<lparr>stock_id = 2412, stock_name = ''Chunghwa'', shares = 250, weight = 1.0005, amount = 0\<rparr>,
      \<lparr>stock_id = 2330, stock_name = ''TSMC'', shares = 1000, weight = 5.0011, amount = 0\<rparr>,
      \<lparr>stock_id = 2317, stock_name = ''Hon Hai'', shares = 500, weight = 2.0009, amount = 0\<rparr>,
      \<lparr>stock_id = 2308, stock_name = ''Delta'', shares = 100, weight = 0.5, amount = 0\<rparr>]"

definition ex_delta :: "nat delta" where
  "ex_delta =
     \<lparr>d_new = [\<lparr>stock_id = 2308, stock_name = ''Delta'', shares = 100, weight = 0.5, amount = 0\<rparr>],
      d_exit = [\<lparr>stock_id = 2454, stock_name = ''MediaTek'', shares = 300, weight = 1.5, amount = 0\<rparr>],
      d_changed =
        [\<lparr>ch_stock_id = 2330, ch_stock_name = ''TSMC'', weight_prev = 5, weight_curr = 5.0011,
          weight_diff = 0.0011, shares_prev = 1000, shares_curr = 1000, shares_diff = 0\<rparr>,
         \<lparr>ch_stock_id = 2412, ch_stock_name = ''Chunghwa'', weight_prev = 1, weight_curr = 1.0005,
          weight_diff = 0.0005, shares_prev = 200, shares_curr = 250, shares_diff = 50\<rparr>]\<rparr>"

text \<open>A table with an \<open>ETF\<close> column and two funds, and a table in which one stock code
  occurs twice.\<close>

definition ex_tagged :: "nat frame" where
  "ex_tagged = Tagged
     [(''00981A'', \<lparr>stock_id = 2330, stock_name = ''TSMC'', shares = 1000, weight = 5, amount = 0\<rparr>),
      (''00980A'', \<lparr>stock_id = 2317, stock_name = ''Hon Hai'', shares = 500, weight = 2, amount = 0\<rparr>)]"

definition ex_dup :: "nat frame" where
  "ex_dup = Untagged
     [\<lparr>stock_id = 2330, stock_name = ''TSMC'', shares = 1000, weight = 5, amount = 0\<rparr>,
      \<lparr>stock_id = 2308, stock_name = ''Delta'', shares = 100, weight = 0.5, amount = 0\<rparr>,
      \<lparr>stock_id = 2308, stock_name = ''Delta'', shares = 70, weight = 0.3, amount = 0\<rparr>]"

definition ex_dup_delta :: "nat delta" where
  "ex_dup_delta =
     \<lparr>d_new = [\<lparr>stock_id = 2308, stock_name = ''Delta'', shares = 100, weight = 0.5, amount = 0\<rparr>,
                \<lparr>stock_id = 2308, stock_name = ''Delta'', shares = 70, weight = 0.3, amount = 0\<rparr>],
      d_exit = [\<lparr>stock_id = 2317, stock_name = ''Hon Hai'', shares = 500, weight = 2, amount = 0\<rparr>,
                \<lparr>stock_id = 2412, stock_name = ''Chunghwa'', shares = 200, weight = 1, amount = 0\<rparr>,
                \<lparr>stock_id = 2454, stock_name = ''MediaTek'', shares = 300, weight = 1.5, amount = 0\<rparr>],
      d_changed = []\<rparr>"

text \<open>
  A conversion of strings for the examples: Python's \<open>float\<close> on a string of decimal
  digits. The strings it rejects in the examples are rejected by Python too.
\<close>

definition is_digit :: "char \<Rightarrow> bool" where
  "is_digit c = (48 \<le> (of_char c :: nat) \<and> (of_char c :: nat) \<le> 57)"

definition digit_value :: "char \<Rightarrow> nat" where
  "digit_value c = of_char c - 48"

definition float_of_digits :: "string \<Rightarrow> real option" where
  "float_of_digits s =
     (if s \<noteq> [] \<and> list_all is_digit s
      then Some (real (foldl (\<lambda>n c. 10 * n + digit_value c) 0 s)) else None)"

text \<open>Pages whose \<open>DataAsset\<close> content is one stock item with the given details; a well
  formed detail and one whose \<open>Share\<close> is not a number; a network that is down.\<close>

definition ex_good_detail :: json where
  "ex_good_detail = JObj [(''DetailCode'', JStr ''2330''), (''DetailName'', JStr ''TSMC''),
     (''Share'', JNum 1000), (''NavRate'', JNum 5), (''Amount'', JNum 0)]"


definition ex_page :: "json list \<Rightarrow> string \<Rightarrow> fetched" where
  "ex_page details url =
     Data (JArr [JObj [(''AssetCode'', JStr ''ST''), (''Details'', JArr details)]])"

definition ex_offline :: "string \<Rightarrow> fetched" where
  "ex_offline url = RequestFailed"

definition ex_fetched :: "string frame" where
  "ex_fetched = Untagged [\<lparr>stock_id = ''2330'', stock_name = ''TSMC'', shares = 1000,
                           weight = 5, amount = 0\<rparr>]"

text \<open>An output directory with two earlier snapshots and a report.\<close>

definition ex_dir :: dir where
  "ex_dir =
     [(''report_20240101.html'', Other),
      (''etf_holdings_20240101.csv'',
         Snapshot (Untagged [\<lparr>stock_id = ''2330'', stock_name = ''TSMC'', shares = 900,
                                 weight = 5, amount = 0\<rparr>])),
      (''etf_holdings_20231229.csv'',
         Snapshot (Untagged [\<lparr>stock_id = ''2330'', stock_name = ''TSMC'', shares = 800,
                                 weight = 5, amount = 0\<rparr>]))]"

text \<open>The two snapshots with their rows in the opposite order.\<close>

definition ex_prev_perm :: "nat frame" where
  "ex_prev_perm = Untagged
     [\<lparr>stock_id = 2412, stock_name = ''Chunghwa'', shares = 200, weight = 1, amount = 0\<rparr>,
      \<lparr>stock_id = 2454, stock_name = ''MediaTek'', shares = 300, weight = 1.5, amount = 0\<rparr>,
      \<lparr>stock_id = 2317, stock_name = ''Hon Hai'', shares = 500, weight = 2, amount = 0\<rparr>,
      \<lparr>stock_id = 2330, stock_name = ''TSMC'', shares = 1000, weight = 5, amount = 0\<rparr>]"

definition ex_curr_perm :: "nat frame" where
  "ex_curr_perm = Untagged
     [\<lparr>stock_id = 2308, stock_name = ''Delta'', shares = 100, weight = 0.5, amount = 0\<rparr>,
      \<lparr>stock_id = 2317, stock_name = ''Hon Hai'', shares = 500, weight = 2.0009, amount = 0\<rparr>,
      \<lparr>stock_id = 2330, stock_name = ''TSMC'', shares = 1000, weight = 5.0011, amount = 0\<rparr>,
      \<lparr>stock_id = 2412, stock_name = ''Chunghwa'', shares = 250, weight = 1.0005, amount = 0\<rparr>]"

text \<open>A fund \<open>00980A\<close> that the previous table does not have, its two rows in either
  order.\<close>

definition ex_onefund :: "nat frame" where
  "ex_onefund = Tagged
     [(''00981A'', \<lparr>stock_id = 2330, stock_name = ''TSMC'', shares = 1000, weight = 5, amount = 0\<rparr>)]"

definition ex_newfund :: "nat frame" where
  "ex_newfund = Tagged
     [(''00981A'', \<lparr>stock_id = 2330, stock_name = ''TSMC'', shares = 1000, weight = 5, amount = 0\<rparr>),
      (''00980A'', \<lparr>stock_id = 2317, stock_name = ''Hon Hai'', shares = 500, weight = 2, amount = 0\<rparr>),
      (''00980A'', \<lparr>stock_id = 2308, stock_name = ''Delta'', shares = 100, weight = 0.5, amount = 0\<rparr>)]"

definition ex_newfund_perm :: "nat frame" where
  "ex_newfund_perm = Tagged
     [(''00981A'', \<lparr>stock_id = 2330, stock_name = ''TSMC'', shares = 1000, weight = 5, amount = 0\<rparr>),
      (''00980A'', \<lparr>stock_id = 2308, stock_name = ''Delta'', shares = 100, weight = 0.5, amount = 0\<rparr>),
      (''00980A'', \<lparr>stock_id = 2317, stock_name = ''Hon Hai'', shares = 500, weight = 2, amount = 0\<rparr>)]"

definition ex_empty_delta :: "nat delta" where
  "ex_empty_delta = \<lparr>d_new = [], d_exit = [], d_changed = []\<rparr>"

definition ex_newfund_delta :: "nat delta" where
  "ex_newfund_delta =
     \<lparr>d_new = [\<lparr>stock_id = 2317, stock_name = ''Hon Hai'', shares = 500, weight = 2, amount = 0\<rparr>,
                \<lparr>stock_id = 2308, stock_name = ''Delta'', shares = 100, weight = 0.5, amount = 0\<rparr>],
      d_exit = [], d_changed = []\<rparr>"

definition ex_newfund_delta_perm :: "nat delta" where
  "ex_newfund_delta_perm =
     \<lparr>d_new = [\<lparr>stock_id = 2308, stock_name = ''Delta'', shares = 100, weight = 0.5, amount = 0\<rparr>,
                \<lparr>stock_id = 2317, stock_name = ''Hon Hai'', shares = 500, weight = 2, amount = 0\<rparr>],
      d_exit = [], d_changed = []\<rparr>"





section \<open>Predicates on tables\<close>

text \<open>No \<open>stock_id\<close> that the two selections of a fund have in common is carried by more
  than one row of either.\<close>

definition no_common_duplicates :: "'k row list \<Rightarrow> 'k row list \<Rightarrow> bool" where
  "no_common_duplicates c p =
     (\<forall>k \<in> set (index c) \<inter> set (index p).
        length (filter (\<lambda>r. stock_id r = k) c) = 1 \<and> length (filter (\<lambda>r. stock_id r = k) p) = 1)"

section \<open>Basic facts about the pandas operations\<close>

lemma set_unique: "set (unique xs) = set xs"
  by (simp add: unique_def)

lemma distinct_unique: "distinct (unique xs)"
  by (simp add: unique_def)

lemma unique_distinct: "distinct xs \<Longrightarrow> unique xs = xs"
  by (simp add: unique_def distinct_remdups_id)

lemma set_index_difference: "set (index_difference xs ys) = set xs - set ys"
  by (auto simp: index_difference_def set_unique)

lemma set_index_intersection: "set (index_intersection xs ys) = set xs \<inter> set ys"
  by (auto simp: index_intersection_def set_unique)

lemma set_index_loc: "set ks \<subseteq> set (index rs) \<Longrightarrow> set (index (loc rs ks)) = set ks"
  by (force simp: index_def loc_def)

lemma tagged_rows_ensure: "tagged_rows (ensure_ETF df) = tagged_rows df"
  by (cases df) simp_all

section \<open>The result of compare\_holdings, fund by fund\<close>

lemma compare_loop_keys: "compare_loop c p etfs = Inr ds \<Longrightarrow> map fst ds = etfs"
  by (induction etfs arbitrary: ds) (auto split: sum.splits)

lemma compare_loop_lookup:
  "compare_loop c p etfs = Inr ds \<Longrightarrow> map_of ds etf = Some d
     \<Longrightarrow> compare_etf (select_ETF c etf) (select_ETF p etf) = Inr d"
  by (induction etfs arbitrary: ds) (auto split: sum.splits if_splits)

lemma compare_holdings_lookup:
  "compare_holdings df_curr df_prev = (c', p', Inr changes) \<Longrightarrow> map_of changes etf = Some d
     \<Longrightarrow> compare_etf (select_ETF (tagged_rows df_curr) etf)
                      (select_ETF (tagged_rows df_prev) etf) = Inr d"
  by (auto simp: compare_holdings_def Let_def tagged_rows_ensure dest: compare_loop_lookup)

lemma compare_holdings_keys:
  "compare_holdings df_curr df_prev = (c', p', Inr changes)
     \<Longrightarrow> map fst changes = unique (map fst (tagged_rows df_curr))"
  by (auto simp: compare_holdings_def Let_def tagged_rows_ensure dest: compare_loop_keys)

lemma compare_etf_new:
  "compare_etf c p = Inr d \<Longrightarrow> d_new d = loc c (index_difference (index c) (index p))"
  by (auto simp: compare_etf_def Let_def split: if_splits)

lemma compare_etf_exit:
  "compare_etf c p = Inr d \<Longrightarrow> d_exit d = loc p (index_difference (index p) (index c))"
  by (auto simp: compare_etf_def Let_def split: if_splits)

lemma keys_new:
  "compare_etf c p = Inr d \<Longrightarrow> set (index (d_new d)) = set (index c) - set (index p)"
  by (simp add: compare_etf_new set_index_loc set_index_difference)

lemma keys_exit:
  "compare_etf c p = Inr d \<Longrightarrow> set (index (d_exit d)) = set (index p) - set (index c)"
  by (simp add: compare_etf_exit set_index_loc set_index_difference)

lemma loc_Cons: "loc rs (k # ks) = filter (\<lambda>r. stock_id r = k) rs @ loc rs ks"
  by (simp add: loc_def)

lemma loc_Nil: "loc rs [] = []"
  by (simp add: loc_def)

lemma filter_loc:
  "distinct ks \<Longrightarrow> filter (\<lambda>r. stock_id r = k) (loc rs ks)
     = (if k \<in> set ks then filter (\<lambda>r. stock_id r = k) rs else [])"
proof (induction ks)
  case Nil
  then show ?case by (simp add: loc_Nil)
next
  case (Cons a ks)
  have f: "filter (\<lambda>x. stock_id x = a \<and> stock_id x = k) rs
             = (if a = k then filter (\<lambda>r. stock_id r = k) rs else [])"
    by (induction rs) auto
  from Cons show ?case
    by (auto simp: loc_Cons f)
qed

lemma distinct_index_difference: "distinct (index_difference xs ys)"
  by (simp add: index_difference_def distinct_unique)


lemma filter_id_empty: "k \<notin> set (index rs) \<Longrightarrow> filter (\<lambda>r. stock_id r = k) rs = []"
  by (induction rs) (auto simp: index_def)

lemma new_rows_of_key:
  assumes "compare_etf c p = Inr d" "k \<notin> set (index p)"
  shows "filter (\<lambda>r. stock_id r = k) (d_new d) = filter (\<lambda>r. stock_id r = k) c"
  using assms
  by (simp add: compare_etf_new filter_loc distinct_index_difference set_index_difference
      filter_id_empty)

lemma exit_rows_of_key:
  assumes "compare_etf c p = Inr d" "k \<notin> set (index c)"
  shows "filter (\<lambda>r. stock_id r = k) (d_exit d) = filter (\<lambda>r. stock_id r = k) p"
  using assms
  by (simp add: compare_etf_exit filter_loc distinct_index_difference set_index_difference
      filter_id_empty)

lemma index_loc_single:
  assumes "\<forall>k \<in> set ks. length (filter (\<lambda>r. stock_id r = k) rs) = 1"
  shows "index (loc rs ks) = ks"
  using assms
proof (induction ks)
  case Nil
  then show ?case by (simp add: loc_Nil index_def)
next
  case (Cons a ks)
  then have "length (filter (\<lambda>r. stock_id r = a) rs) = 1" by simp
  then obtain r where r: "filter (\<lambda>r. stock_id r = a) rs = [r]"
    by (auto simp: length_Suc_conv)
  then have "r \<in> set (filter (\<lambda>r. stock_id r = a) rs)" by simp
  then have "stock_id r = a" by simp
  with Cons r show ?case
    by (simp add: loc_Cons index_def)
qed

text \<open>Without duplicates among the common keys the comparison of a fund returns.\<close>

lemma compare_etf_total:
  assumes "no_common_duplicates c p"
  shows "\<exists>d. compare_etf c p = Inr d"
proof -
  let ?ks = "index_intersection (index c) (index p)"
  have "index (loc c ?ks) = ?ks"
    using assms
    by (intro index_loc_single) (simp add: no_common_duplicates_def set_index_intersection)
  moreover have "index (loc p ?ks) = ?ks"
    using assms
    by (intro index_loc_single) (simp add: no_common_duplicates_def set_index_intersection)
  ultimately show ?thesis
    by (simp add: compare_etf_def Let_def)
qed

lemma compare_loop_total:
  assumes "\<And>etf. no_common_duplicates (select_ETF c etf) (select_ETF p etf)"
  shows "\<exists>ds. compare_loop c p etfs = Inr ds"
proof (induction etfs)
  case Nil
  then show ?case by simp
next
  case (Cons etf etfs)
  from assms obtain d where "compare_etf (select_ETF c etf) (select_ETF p etf) = Inr d"
    using compare_etf_total by blast
  with Cons show ?case by auto
qed

lemma compare_holdings_total:
  assumes "\<And>etf. no_common_duplicates (select_ETF (tagged_rows df_curr) etf)
                                       (select_ETF (tagged_rows df_prev) etf)"
  shows "\<exists>changes. compare_holdings df_curr df_prev
           = (ensure_ETF df_curr, ensure_ETF df_prev, Inr changes)"
  using compare_loop_total [OF assms]
  by (simp add: compare_holdings_def Let_def tagged_rows_ensure)

section \<open>The example tables, evaluated\<close>

lemmas eval_defs = compare_holdings_def compare_etf_def Let_def
  index_difference_def index_intersection_def unique_def loc_def select_ETF_def index_def
  sort_values_def changed_mask_def changed_entry_def

lemma compare_example:
  "compare_holdings ex_curr ex_prev
     = (ensure_ETF ex_curr, ensure_ETF ex_prev, Inr [(''00981A'', ex_delta)])"
  by (simp add: ex_curr_def ex_prev_def ex_delta_def eval_defs)

lemma compare_dup_example:
  "compare_holdings ex_dup ex_prev
     = (ensure_ETF ex_dup, ensure_ETF ex_prev, Inr [(''00981A'', ex_dup_delta)])"
  by (simp add: ex_prev_def ex_dup_def ex_dup_delta_def eval_defs)

lemma ex_dup_no_common:
  "no_common_duplicates (select_ETF (tagged_rows ex_dup) etf)
                        (select_ETF (tagged_rows ex_prev) etf)"
  by (simp add: no_common_duplicates_def ex_dup_def ex_prev_def select_ETF_def index_def)

lemma compare_example_perm:
  "compare_holdings ex_curr_perm ex_prev_perm
     = (ensure_ETF ex_curr_perm, ensure_ETF ex_prev_perm, Inr [(''00981A'', ex_delta)])"
  by (simp add: ex_curr_perm_def ex_prev_perm_def ex_delta_def eval_defs)

lemma compare_newfund:
  "compare_holdings ex_newfund ex_onefund
     = (ex_newfund, ex_onefund, Inr [(''00981A'', ex_empty_delta), (''00980A'', ex_newfund_delta)])"
  by (simp add: ex_newfund_def ex_onefund_def ex_empty_delta_def ex_newfund_delta_def eval_defs)

lemma compare_newfund_perm:
  "compare_holdings ex_newfund_perm ex_onefund
     = (ex_newfund_perm, ex_onefund,
        Inr [(''00981A'', ex_empty_delta), (''00980A'', ex_newfund_delta_perm)])"
  by (simp add: ex_newfund_perm_def ex_onefund_def ex_empty_delta_def ex_newfund_delta_perm_def
      eval_defs)



lemma ex_perm:
  "mset (tagged_rows ex_curr_perm) = mset (tagged_rows ex_curr)"
  "mset (tagged_rows ex_prev_perm) = mset (tagged_rows ex_prev)"
  "mset (tagged_rows ex_newfund_perm) = mset (tagged_rows ex_newfund)"
  by (simp_all add: ex_curr_perm_def ex_curr_def ex_prev_perm_def ex_prev_def
      ex_newfund_perm_def ex_newfund_def)

lemma ex_distinct:
  "distinct (index (select_ETF (tagged_rows ex_curr) ''00981A''))"
  "distinct (index (select_ETF (tagged_rows ex_prev) ''00981A''))"
  "distinct (index (select_ETF (tagged_rows ex_newfund) ''00980A''))"
  "distinct (index (select_ETF (tagged_rows ex_onefund) ''00980A''))"
  by (simp_all add: ex_curr_def ex_prev_def ex_newfund_def ex_onefund_def select_ETF_def index_def)

section \<open>Entered, Exited and Common partition the keys\<close>

text \<open>
  C9. For every pair of tables and every fund of the result, the key sets of Entered and
  Exited are disjoint, Exited has exactly the keys found only in the previous table, and
  Entered, the common keys and the keys only in the previous table together are exactly
  the keys of the fund in the current or the previous table.
\<close>

theorem delta_key_partition:
  assumes "compare_holdings df_curr df_prev = (c', p', Inr changes)"
    and "map_of changes etf = Some d"
  shows "set (index (d_new d)) \<inter> set (index (d_exit d)) = {}
       \<and> set (index (d_exit d))
           = set (index (select_ETF (tagged_rows df_prev) etf))
             - set (index (select_ETF (tagged_rows df_curr) etf))
       \<and> set (index (d_new d))
           \<union> set (index_intersection (index (select_ETF (tagged_rows df_curr) etf))
                                       (index (select_ETF (tagged_rows df_prev) etf)))
           \<union> set (index (d_exit d))
           = set (index (select_ETF (tagged_rows df_curr) etf))
             \<union> set (index (select_ETF (tagged_rows df_prev) etf))"
proof -
  let ?c = "select_ETF (tagged_rows df_curr) etf"
  let ?p = "select_ETF (tagged_rows df_prev) etf"
  have e: "compare_etf ?c ?p = Inr d"
    using assms by (rule compare_holdings_lookup)
  have n: "set (index (d_new d)) = set (index ?c) - set (index ?p)"
    using e by (rule keys_new)
  have x: "set (index (d_exit d)) = set (index ?p) - set (index ?c)"
    using e by (rule keys_exit)
  show ?thesis
    unfolding n x set_index_intersection by blast
qed

theorem delta_key_partition_witness:
  "compare_holdings ex_curr ex_prev
     = (ensure_ETF ex_curr, ensure_ETF ex_prev, Inr [(''00981A'', ex_delta)])
   \<and> map_of [(''00981A'', ex_delta)] ''00981A'' = Some ex_delta
   \<and> set (index (d_new ex_delta)) \<inter> set (index (d_exit ex_delta)) = {}
   \<and> set (index (d_exit ex_delta)) = {2454}
   \<and> set (index (d_new ex_delta))
       \<union> set (index_intersection (index (select_ETF (tagged_rows ex_curr) ''00981A''))
                                   (index (select_ETF (tagged_rows ex_prev) ''00981A'')))
       \<union> set (index (d_exit ex_delta))
       = set (index (select_ETF (tagged_rows ex_curr) ''00981A''))
         \<union> set (index (select_ETF (tagged_rows ex_prev) ''00981A''))"
proof -
  have m: "map_of [(''00981A'', ex_delta)] ''00981A'' = Some ex_delta"
    by simp
  have x: "set (index (d_exit ex_delta)) = {2454}"
    by (simp add: ex_delta_def index_def)
  show ?thesis
    using delta_key_partition [OF compare_example m] compare_example m x by blast
qed

section \<open>Which funds get a Delta\<close>

text \<open>
  C1 (as amended). The loop runs over \<open>df_curr['ETF'].unique()\<close>: the result has a Delta
  for exactly the fund identifiers present in the current table. A fund whose rows appear
  only in the previous table gets no Delta at all.
\<close>

theorem delta_funds_of_current:
  assumes "compare_holdings df_curr df_prev = (c', p', Inr changes)"
  shows "(\<exists>d. map_of changes etf = Some d) \<longleftrightarrow> etf \<in> fst ` set (tagged_rows df_curr)"
proof -
  have "map fst changes = unique (map fst (tagged_rows df_curr))"
    using assms by (rule compare_holdings_keys)
  then have "fst ` set changes = fst ` set (tagged_rows df_curr)"
    by (metis set_map set_unique)
  then show ?thesis
    by (metis domIff dom_map_of_conv_image_fst not_Some_eq)
qed

theorem delta_funds_of_current_witness:
  "compare_holdings ex_curr ex_prev
     = (ensure_ETF ex_curr, ensure_ETF ex_prev, Inr [(''00981A'', ex_delta)])
   \<and> ''00981A'' \<in> fst ` set (tagged_rows ex_curr)
   \<and> ''00980A'' \<notin> fst ` set (tagged_rows ex_curr)"
  using delta_funds_of_current [OF compare_example, of "''00981A''"]
    delta_funds_of_current [OF compare_example, of "''00980A''"] compare_example
  by simp

text \<open>
  The claim as stated fails. With an empty current table and one previous row (the
  example of the specification) the result has no entry; and a fund \<open>00980A\<close> found only
  in the previous table is absent from the result for a current table of fund \<open>00981A\<close>.
\<close>

theorem previous_only_fund_counterexample:
  "compare_holdings (Untagged [])
     (Untagged [\<lparr>stock_id = 2330::nat, stock_name = ''A'', shares = 1000, weight = 5, amount = 0\<rparr>])
   = (Tagged [],
      Tagged [(''00981A'', \<lparr>stock_id = 2330, stock_name = ''A'', shares = 1000, weight = 5, amount = 0\<rparr>)],
      Inr [])
   \<and> snd (snd (compare_holdings ex_prev ex_tagged))
     = Inr [(''00981A'',
        \<lparr>d_new = [\<lparr>stock_id = 2317, stock_name = ''Hon Hai'', shares = 500, weight = 2, amount = 0\<rparr>,
                   \<lparr>stock_id = 2412, stock_name = ''Chunghwa'', shares = 200, weight = 1, amount = 0\<rparr>,
                   \<lparr>stock_id = 2454, stock_name = ''MediaTek'', shares = 300, weight = 1.5, amount = 0\<rparr>],
         d_exit = [], d_changed = []\<rparr>)]"
  by (simp add: ex_prev_def ex_tagged_def eval_defs)

section \<open>What compare\_holdings does to its arguments\<close>

text \<open>
  C4 (as amended). \<open>compare_holdings\<close> leaves the rows of both tables as they are, and a
  table that has an \<open>ETF\<close> column is not touched; a table without one is given the column,
  with \<open>00981A\<close> in every row.
\<close>

theorem compare_holdings_inputs:
  "plain_rows (fst (compare_holdings df_curr df_prev)) = plain_rows df_curr
   \<and> plain_rows (fst (snd (compare_holdings df_curr df_prev))) = plain_rows df_prev
   \<and> (has_ETF df_curr \<longrightarrow> fst (compare_holdings df_curr df_prev) = df_curr)
   \<and> (has_ETF df_prev \<longrightarrow> fst (snd (compare_holdings df_curr df_prev)) = df_prev)
   \<and> (\<not> has_ETF df_curr \<longrightarrow> fst (compare_holdings df_curr df_prev)
          = Tagged (map (\<lambda>r. (''00981A'', r)) (plain_rows df_curr)))
   \<and> (\<not> has_ETF df_prev \<longrightarrow> fst (snd (compare_holdings df_curr df_prev))
          = Tagged (map (\<lambda>r. (''00981A'', r)) (plain_rows df_prev)))"
  by (cases df_curr; cases df_prev) (simp_all add: compare_holdings_def Let_def comp_def)

theorem compare_holdings_inputs_witness:
  "has_ETF ex_tagged \<and> fst (compare_holdings ex_tagged ex_prev) = ex_tagged
   \<and> \<not> has_ETF ex_prev
   \<and> fst (snd (compare_holdings ex_tagged ex_prev))
       = Tagged (map (\<lambda>r. (''00981A'', r)) (plain_rows ex_prev))"
proof -
  have t: "has_ETF ex_tagged" by (simp add: ex_tagged_def)
  have u: "\<not> has_ETF ex_prev" by (simp add: ex_prev_def)
  show ?thesis
    using compare_holdings_inputs [of ex_tagged ex_prev] t u by blast
qed

text \<open>The claim as stated fails: both example tables come back with a column more.\<close>

theorem inputs_mutated_counterexample:
  "fst (compare_holdings ex_curr ex_prev) \<noteq> ex_curr
   \<and> fst (snd (compare_holdings ex_curr ex_prev)) \<noteq> ex_prev"
  by (simp add: ex_curr_def ex_prev_def compare_holdings_def Let_def)

section \<open>Duplicated stock codes\<close>

text \<open>
  C5 (as amended). \<open>compare_holdings\<close> asserts no uniqueness and raises no integrity
  error. Whenever no stock code common to the two tables of a fund is duplicated, the
  call returns its result, and every row of a code that occurs in only one of the two
  tables is carried into Entered, or into Exited, duplicates included.
\<close>

theorem duplicates_carried:
  assumes "\<And>etf. no_common_duplicates (select_ETF (tagged_rows df_curr) etf)
                                       (select_ETF (tagged_rows df_prev) etf)"
  shows "\<exists>changes. snd (snd (compare_holdings df_curr df_prev)) = Inr changes
           \<and> (\<forall>etf d k. map_of changes etf = Some d \<longrightarrow>
                (k \<notin> set (index (select_ETF (tagged_rows df_prev) etf)) \<longrightarrow>
                   filter (\<lambda>r. stock_id r = k) (d_new d)
                   = filter (\<lambda>r. stock_id r = k) (select_ETF (tagged_rows df_curr) etf))
              \<and> (k \<notin> set (index (select_ETF (tagged_rows df_curr) etf)) \<longrightarrow>
                   filter (\<lambda>r. stock_id r = k) (d_exit d)
                   = filter (\<lambda>r. stock_id r = k) (select_ETF (tagged_rows df_prev) etf)))"
proof -
  from compare_holdings_total [OF assms] obtain changes where
    c: "compare_holdings df_curr df_prev = (ensure_ETF df_curr, ensure_ETF df_prev, Inr changes)"
    by blast
  have "\<And>etf d. map_of changes etf = Some d \<Longrightarrow>
          compare_etf (select_ETF (tagged_rows df_curr) etf)
                      (select_ETF (tagged_rows df_prev) etf) = Inr d"
    using c by (rule compare_holdings_lookup)
  then show ?thesis
    using c by (auto dest: new_rows_of_key exit_rows_of_key)
qed

text \<open>The claim as stated fails: the code 2308 occurs twice in the current table, and
  the call returns with both rows in Entered.\<close>

theorem duplicate_not_reported_counterexample:
  "snd (snd (compare_holdings ex_dup ex_prev)) = Inr [(''00981A'', ex_dup_delta)]
   \<and> d_new ex_dup_delta
     = [\<lparr>stock_id = 2308, stock_name = ''Delta'', shares = 100, weight = 0.5, amount = 0\<rparr>,
        \<lparr>stock_id = 2308, stock_name = ''Delta'', shares = 70, weight = 0.3, amount = 0\<rparr>]"
  by (simp add: compare_dup_example) (simp add: ex_dup_delta_def)

theorem duplicates_carried_witness:
  "(\<forall>etf. no_common_duplicates (select_ETF (tagged_rows ex_dup) etf)
                                 (select_ETF (tagged_rows ex_prev) etf))
   \<and> 2308 \<notin> set (index (select_ETF (tagged_rows ex_prev) ''00981A''))
   \<and> (\<exists>changes d. snd (snd (compare_holdings ex_dup ex_prev)) = Inr changes
         \<and> map_of changes ''00981A'' = Some d
         \<and> filter (\<lambda>r. stock_id r = 2308) (d_new d)
            = filter (\<lambda>r. stock_id r = 2308) (select_ETF (tagged_rows ex_dup) ''00981A'')
         \<and> length (filter (\<lambda>r. stock_id r = 2308) (d_new d)) = 2)"
proof -
  have k: "2308 \<notin> set (index (select_ETF (tagged_rows ex_prev) ''00981A''))"
    by (simp add: ex_prev_def select_ETF_def index_def)
  from duplicates_carried [of ex_dup ex_prev, OF ex_dup_no_common]
  obtain changes where
    c: "snd (snd (compare_holdings ex_dup ex_prev)) = Inr changes"
    and f: "\<And>etf d k. map_of changes etf = Some d \<Longrightarrow>
              k \<notin> set (index (select_ETF (tagged_rows ex_prev) etf)) \<Longrightarrow>
              filter (\<lambda>r. stock_id r = k) (d_new d)
              = filter (\<lambda>r. stock_id r = k) (select_ETF (tagged_rows ex_dup) etf)"
    by blast
  from c obtain d where d: "map_of changes ''00981A'' = Some d"
    by (auto simp: compare_dup_example)
  have l: "length (filter (\<lambda>r. stock_id r = 2308) (select_ETF (tagged_rows ex_dup) ''00981A'')) = 2"
    by (simp add: ex_dup_def select_ETF_def)
  from f [OF d k] c d k l ex_dup_no_common show ?thesis
    by auto
qed

section \<open>The scraper\<close>

lemma and_then_Inl [simp]: "and_then (Inl e) f = Inl e"
  by (simp add: and_then_def)

lemma and_then_Inr [simp]: "and_then (Inr x) f = f x"
  by (simp add: and_then_def)







lemma fetch_holdings_nonempty:
  "fetch_holdings str_float web etf_code = Some df \<Longrightarrow> plain_rows df \<noteq> [] \<and> \<not> has_ETF df"
  by (auto simp: fetch_holdings_def split: option.splits fetched.splits sum.splits if_splits)

lemma ex_fetch:
  "fetch_holdings float_of_digits (ex_page [ex_good_detail]) ''00981A'' = Some ex_fetched"
  by (simp add: fetch_holdings_def url_map_def ex_page_def ex_good_detail_def parse_holdings_def
      item_step_def detail_row_def strip_def isspace_def ex_fetched_def)


lemma ex_fetch_empty: "fetch_holdings float_of_digits (ex_page []) ''00981A'' = None"
  by (simp add: fetch_holdings_def url_map_def ex_page_def parse_holdings_def item_step_def)

lemma ex_fetch_offline: "fetch_holdings float_of_digits ex_offline ''00981A'' = None"
  by (simp add: fetch_holdings_def url_map_def ex_offline_def)





text \<open>
  C8 (as amended). \<open>fetch_holdings\<close> never returns an empty table: a fetch that succeeds
  and finds no stock holdings returns \<open>None\<close>, the value a failed request returns; every
  table it returns has at least one row.
\<close>

theorem fetch_holdings_result:
  "(fetch_holdings str_float web etf_code = Some df \<longrightarrow> plain_rows df \<noteq> [])
   \<and> (url_map etf_code = Some url \<and> web url = Data data
        \<and> parse_holdings str_float data = Inr [] \<longrightarrow>
          fetch_holdings str_float web etf_code = None)
   \<and> (url_map etf_code = Some url \<and> web url = RequestFailed \<longrightarrow>
          fetch_holdings str_float web etf_code = None)"
  using fetch_holdings_nonempty [of str_float web etf_code df]
  by (auto simp: fetch_holdings_def)

theorem fetch_holdings_result_witness:
  "fetch_holdings float_of_digits (ex_page [ex_good_detail]) ''00981A'' = Some ex_fetched
   \<and> plain_rows ex_fetched \<noteq> []
   \<and> parse_holdings float_of_digits (JArr []) = Inr []
   \<and> fetch_holdings float_of_digits (\<lambda>url. Data (JArr [])) ''00981A'' = None
   \<and> fetch_holdings float_of_digits ex_offline ''00981A'' = None"
proof -
  have u: "url_map ''00981A'' = Some ''https://www.ezmoney.com.tw/ETF/Fund/Info?fundCode=49YTW''"
    by (simp add: url_map_def)
  have p: "parse_holdings float_of_digits (JArr []) = Inr []"
    by (simp add: parse_holdings_def)
  have o: "ex_offline ''https://www.ezmoney.com.tw/ETF/Fund/Info?fundCode=49YTW'' = RequestFailed"
    by (simp add: ex_offline_def)
  show ?thesis
    using fetch_holdings_result [of float_of_digits "ex_page [ex_good_detail]" "''00981A''"
        ex_fetched]
      fetch_holdings_result [of float_of_digits "\<lambda>url. Data (JArr [])" "''00981A''" _
        "''https://www.ezmoney.com.tw/ETF/Fund/Info?fundCode=49YTW''" "JArr []"]
      fetch_holdings_result [of float_of_digits ex_offline "''00981A''" _
        "''https://www.ezmoney.com.tw/ETF/Fund/Info?fundCode=49YTW''"]
      ex_fetch u p o
    by simp
qed

text \<open>The claim as stated fails: a page with a stock item without details and a failed
  request give the same value.\<close>

theorem empty_like_failure_counterexample:
  "fetch_holdings float_of_digits (ex_page []) ''00981A'' = None
   \<and> fetch_holdings float_of_digits ex_offline ''00981A'' = None"
  by (simp add: ex_fetch_empty ex_fetch_offline)

section \<open>The run\<close>

lemma sorted_snapshot_files: "sorted (snapshot_files d)"
  by (simp add: snapshot_files_def)

lemma startswith_append: "startswith (p @ s) p"
  by (simp add: startswith_def)

lemma endswith_append: "endswith (s @ p) p"
  by (simp add: endswith_def)

lemma set_snapshot_files:
  "set (snapshot_files d)
     = {f \<in> fst ` set d. startswith f ''etf_holdings_'' \<and> endswith f ''.csv''}"
  by (auto simp: snapshot_files_def listdir_def)

lemma snapshot_name_listed:
  "snapshot_name ts \<in> set (snapshot_files (write_file d (snapshot_name ts) c))"
proof -
  have "startswith (snapshot_name ts) ''etf_holdings_''"
    unfolding snapshot_name_def by (rule startswith_append)
  moreover have "endswith (snapshot_name ts) ''.csv''"
    unfolding snapshot_name_def append_assoc [symmetric] by (rule endswith_append)
  ultimately show ?thesis
    unfolding set_snapshot_files by (simp add: write_file_def)
qed

lemma map_of_write_same: "map_of (write_file d name c) name = Some c"
  by (simp add: write_file_def)

lemma map_of_write_other: "n \<noteq> name \<Longrightarrow> map_of (write_file d name c) n = map_of d n"
  by (induction d) (auto simp: write_file_def)

lemma report_not_snapshot: "report_name a \<noteq> snapshot_name b"
  by (simp add: report_name_def snapshot_name_def)

lemma latest_two_None: "latest_two files = None \<longleftrightarrow> length files < 2"
  by (auto simp: latest_two_def)

lemma latest_two_Some:
  "latest_two files = Some (p, c) \<longleftrightarrow>
     length files \<ge> 2 \<and> p = files ! (length files - 2) \<and> c = files ! (length files - 1)"
  by (auto simp: latest_two_def)

lemma sorted_last_two:
  assumes "sorted files" "length files \<ge> 2"
  shows "files ! (length files - 2) \<le> files ! (length files - 1)"
    and "\<forall>f \<in> set files. f \<le> files ! (length files - 1)"
proof -
  show "files ! (length files - 2) \<le> files ! (length files - 1)"
    using assms by (intro sorted_nth_mono) auto
  show "\<forall>f \<in> set files. f \<le> files ! (length files - 1)"
  proof
    fix f assume "f \<in> set files"
    then obtain i where "i < length files" "f = files ! i"
      by (auto simp: in_set_conv_nth)
    then show "f \<le> files ! (length files - 1)"
      using assms by (auto intro!: sorted_nth_mono)
  qed
qed

lemma comparison_cases:
  "comparison d ts = (d', out) \<Longrightarrow>
     (latest_two (snapshot_files d) = None \<and> d' = d \<and> out = NotEnoughHistory)
   \<or> (\<exists>p c. latest_two (snapshot_files d) = Some (p, c) \<and>
         ((\<exists>e. out = ComparisonFailed e \<and> d' = d)
        \<or> (\<exists>df_c df_p diff. read_csv d c = Inr df_c \<and> read_csv d p = Inr df_p
              \<and> snd (snd (compare_holdings df_c df_p)) = Inr diff
              \<and> out = Reported p c diff \<and> d' = generate_html_report d diff ts)))"
  by (auto simp: comparison_def split: option.splits sum.splits prod.splits)


lemma monitor_etfs_fetched:
  assumes "fetch_holdings str_float web ''00981A'' = Some df"
  shows "monitor_etfs str_float web ts d = comparison (save_snapshot d ts df) ts"
  using assms fetch_holdings_nonempty [OF assms] by (simp add: monitor_etfs_def)

lemma sorted_second_last:
  assumes "sorted files" "length files \<ge> 2" "f \<in> set files"
  shows "f = files ! (length files - 1) \<or> f \<le> files ! (length files - 2)"
proof -
  from assms(3) obtain i where i: "i < length files" "f = files ! i"
    by (auto simp: in_set_conv_nth)
  show ?thesis
  proof (cases "i = length files - 1")
    case True
    with i show ?thesis by simp
  next
    case False
    with i assms(2) have "i \<le> length files - 2" by arith
    with assms i have "files ! i \<le> files ! (length files - 2)"
      by (intro sorted_nth_mono) auto
    with i show ?thesis by simp
  qed
qed

text \<open>
  C7. When the fetch gave a table, the snapshot of the day is in the directory whatever
  the comparison comes to, and it counts among the snapshot files. With fewer than two
  snapshot files the run ends with \<open>NotEnoughHistory\<close> and the directory holds nothing
  beyond the snapshot: no comparison, no report. With two or more, the run does not end
  so; previous and current are the last two names of the sorted list, the previous one
  not after the current one and every other name not after the previous one; a report is
  the comparison of the tables read from these two files.
\<close>

theorem history_selection:
  assumes "fetch_holdings str_float web ''00981A'' = Some df"
  shows
    "map_of (fst (monitor_etfs str_float web ts d)) (snapshot_name ts) = Some (Snapshot df)
   \<and> snapshot_name ts \<in> set (snapshot_files (save_snapshot d ts df))
   \<and> (length (snapshot_files (save_snapshot d ts df)) < 2 \<longrightarrow>
        monitor_etfs str_float web ts d = (save_snapshot d ts df, NotEnoughHistory))
   \<and> (2 \<le> length (snapshot_files (save_snapshot d ts df)) \<longrightarrow>
        snd (monitor_etfs str_float web ts d) \<noteq> NotEnoughHistory
      \<and> (\<forall>prev curr diff. snd (monitor_etfs str_float web ts d) = Reported prev curr diff \<longrightarrow>
            latest_two (snapshot_files (save_snapshot d ts df)) = Some (prev, curr)
          \<and> (\<exists>df_curr df_prev.
                read_csv (save_snapshot d ts df) curr = Inr df_curr
              \<and> read_csv (save_snapshot d ts df) prev = Inr df_prev
              \<and> snd (snd (compare_holdings df_curr df_prev)) = Inr diff))
      \<and> (\<exists>prev curr. latest_two (snapshot_files (save_snapshot d ts df)) = Some (prev, curr)
            \<and> prev \<le> curr
            \<and> (\<forall>f \<in> set (snapshot_files (save_snapshot d ts df)). f = curr \<or> f \<le> prev)))"
proof -
  let ?d1 = "save_snapshot d ts df"
  let ?files = "snapshot_files ?d1"
  let ?r = "monitor_etfs str_float web ts d"
  have r: "?r = comparison ?d1 ts"
    using assms by (rule monitor_etfs_fetched)
  obtain d' out where c: "comparison ?d1 ts = (d', out)"
    by (cases "comparison ?d1 ts")
  note cc = comparison_cases [OF c]
  have w: "map_of ?d1 (snapshot_name ts) = Some (Snapshot df)"
    by (simp add: save_snapshot_def map_of_write_same)
  have a: "map_of (fst ?r) (snapshot_name ts) = Some (Snapshot df)"
    using cc w unfolding r c
    by (auto simp: generate_html_report_def map_of_write_other report_not_snapshot [symmetric])
  have b: "snapshot_name ts \<in> set ?files"
    unfolding save_snapshot_def by (rule snapshot_name_listed)
  have s: "sorted ?files"
    by (rule sorted_snapshot_files)
  have lt: "length ?files < 2 \<Longrightarrow> ?r = (?d1, NotEnoughHistory)"
    using cc unfolding r c by (auto simp: latest_two_Some)
  have ge1: "2 \<le> length ?files \<Longrightarrow> snd ?r \<noteq> NotEnoughHistory"
    using cc unfolding r c by (auto simp: latest_two_None)
  have ge2: "\<And>prev curr diff. snd ?r = Reported prev curr diff \<Longrightarrow>
            latest_two ?files = Some (prev, curr)
          \<and> (\<exists>df_curr df_prev.
                read_csv ?d1 curr = Inr df_curr
              \<and> read_csv ?d1 prev = Inr df_prev
              \<and> snd (snd (compare_holdings df_curr df_prev)) = Inr diff)"
    using cc unfolding r c by auto
  have ge3: "2 \<le> length ?files \<Longrightarrow>
     \<exists>prev curr. latest_two ?files = Some (prev, curr) \<and> prev \<le> curr
        \<and> (\<forall>f \<in> set ?files. f = curr \<or> f \<le> prev)"
    using sorted_last_two(1) [OF s] sorted_second_last [OF s]
    by (simp add: latest_two_def)
  show ?thesis
    using a b lt ge1 ge2 ge3 by blast
qed

lemma ex_files:
  "snapshot_files (save_snapshot ex_dir ''20240102'' ex_fetched)
     = [''etf_holdings_20231229.csv'', ''etf_holdings_20240101.csv'',
        ''etf_holdings_20240102.csv'']"
  by (simp add: snapshot_files_def save_snapshot_def ex_dir_def write_file_def listdir_def
      snapshot_name_def startswith_def endswith_def)

lemma ex_files_first_run:
  "snapshot_files (save_snapshot [] ''20240102'' ex_fetched) = [''etf_holdings_20240102.csv'']"
  by (simp add: snapshot_files_def save_snapshot_def write_file_def listdir_def
      snapshot_name_def startswith_def endswith_def)

theorem history_selection_witness:
  "fetch_holdings float_of_digits (ex_page [ex_good_detail]) ''00981A'' = Some ex_fetched
   \<and> length (snapshot_files (save_snapshot [] ''20240102'' ex_fetched)) < 2
   \<and> monitor_etfs float_of_digits (ex_page [ex_good_detail]) ''20240102'' []
       = (save_snapshot [] ''20240102'' ex_fetched, NotEnoughHistory)
   \<and> 2 \<le> length (snapshot_files (save_snapshot ex_dir ''20240102'' ex_fetched))
   \<and> snd (monitor_etfs float_of_digits (ex_page [ex_good_detail]) ''20240102'' ex_dir)
       \<noteq> NotEnoughHistory
   \<and> latest_two (snapshot_files (save_snapshot ex_dir ''20240102'' ex_fetched))
       = Some (''etf_holdings_20240101.csv'', ''etf_holdings_20240102.csv'')"
proof -
  have l: "latest_two (snapshot_files (save_snapshot ex_dir ''20240102'' ex_fetched))
       = Some (''etf_holdings_20240101.csv'', ''etf_holdings_20240102.csv'')"
    by (simp add: ex_files latest_two_def)
  show ?thesis
    using history_selection [OF ex_fetch, of "''20240102''" "[]"]
      history_selection [OF ex_fetch, of "''20240102''" ex_dir] ex_fetch l
    by (simp add: ex_files ex_files_first_run)
qed

section \<open>Which common rows are Changed\<close>

lemma filter_single:
  "distinct (index rs) \<Longrightarrow> r \<in> set rs \<Longrightarrow> filter (\<lambda>x. stock_id x = stock_id r) rs = [r]"
proof (induction rs)
  case Nil
  then show ?case by simp
next
  case (Cons a rs)
  show ?case
  proof (cases "r = a")
    case True
    with Cons.prems have "stock_id a \<notin> set (index rs)" by (simp add: index_def)
    then have "filter (\<lambda>x. stock_id x = stock_id a) rs = []"
      by (rule filter_id_empty)
    with True show ?thesis by simp
  next
    case False
    with Cons.prems have r: "r \<in> set rs" and d: "distinct (index rs)"
      and "stock_id a \<notin> set (index rs)"
      by (simp_all add: index_def)
    then have "stock_id a \<noteq> stock_id r" by (auto simp: index_def)
    with Cons.IH [OF d r] show ?thesis by simp
  qed
qed










section \<open>The order of Entered and Exited\<close>

lemma mset_select_ETF:
  "mset (select_ETF trs etf) = image_mset snd (filter_mset (\<lambda>tr. fst tr = etf) (mset trs))"
  by (simp add: select_ETF_def)

lemma select_ETF_perm:
  "mset trs2 = mset trs1 \<Longrightarrow> mset (select_ETF trs2 etf) = mset (select_ETF trs1 etf)"
  by (simp add: mset_select_ETF)

lemma index_perm: "mset rs2 = mset rs1 \<Longrightarrow> mset (index rs2) = mset (index rs1)"
  unfolding index_def by (metis mset_map)

lemma distinct_perm: "mset xs = mset ys \<Longrightarrow> distinct xs \<Longrightarrow> distinct ys"
  by (metis mset_eq_imp_distinct_iff)

lemma sort_perm: "mset xs = mset ys \<Longrightarrow> sort xs = sort ys"
  by (metis sorted_list_of_multiset_mset)

lemma filter_key_perm:
  assumes "mset rs2 = mset rs1" "distinct (index rs1)"
  shows "filter (\<lambda>r. stock_id r = k) rs2 = filter (\<lambda>r. stock_id r = k) rs1"
proof -
  have d2: "distinct (index rs2)"
    using index_perm [OF assms(1)] assms(2) by (metis distinct_perm)
  have s: "set rs2 = set rs1"
    using assms(1) by (rule mset_eq_setD)
  show ?thesis
  proof (cases "k \<in> set (index rs1)")
    case True
    then obtain r where r: "r \<in> set rs1" "stock_id r = k"
      by (auto simp: index_def)
    from filter_single [OF assms(2) r(1)] filter_single [OF d2, of r] r s show ?thesis
      by simp
  next
    case False
    moreover from False s have "k \<notin> set (index rs2)"
      by (simp add: index_def)
    ultimately show ?thesis
      by (simp add: filter_id_empty)
  qed
qed

lemma loc_perm:
  assumes "mset rs2 = mset rs1" "distinct (index rs1)"
  shows "loc rs2 ks = loc rs1 ks"
  unfolding loc_def using filter_key_perm [OF assms] by simp

lemma index_difference_sort:
  assumes "distinct xs" "ys \<noteq> []"
  shows "index_difference xs ys = sort (filter (\<lambda>k. k \<notin> set ys) xs)"
proof (cases "xs = ys")
  case True
  then have "filter (\<lambda>k. k \<notin> set ys) xs = []" by simp
  with True show ?thesis by (simp add: index_difference_def)
next
  case False
  with assms show ?thesis
    by (simp add: index_difference_def unique_distinct)
qed

lemma index_difference_perm:
  assumes "mset xs2 = mset xs1" "mset ys2 = mset ys1" "distinct xs1" "ys1 \<noteq> []"
  shows "index_difference xs2 ys2 = index_difference xs1 ys1"
proof -
  have d2: "distinct xs2" using assms(1,3) by (metis distinct_perm)
  have n2: "ys2 \<noteq> []" using assms(2,4) by (metis mset_zero_iff)
  have s: "set ys2 = set ys1" using assms(2) by (rule mset_eq_setD)
  have "mset (filter (\<lambda>k. k \<notin> set ys2) xs2) = mset (filter (\<lambda>k. k \<notin> set ys1) xs1)"
    by (simp add: s assms(1))
  then show ?thesis
    unfolding index_difference_sort [OF d2 n2] index_difference_sort [OF assms(3,4)]
    by (rule sort_perm)
qed

lemma sorted_index_difference: "ys \<noteq> [] \<Longrightarrow> sorted (index_difference xs ys)"
  by (simp add: index_difference_def)

lemma index_loc_distinct:
  assumes "distinct (index rs)" "set ks \<subseteq> set (index rs)"
  shows "index (loc rs ks) = ks"
proof (rule index_loc_single, rule ballI)
  fix k assume "k \<in> set ks"
  with assms(2) obtain r where "r \<in> set rs" "stock_id r = k"
    by (auto simp: index_def)
  with filter_single [OF assms(1), of r] show "length (filter (\<lambda>r. stock_id r = k) rs) = 1"
    by simp
qed

lemma concat_singletons: "concat (map (\<lambda>r. [r]) rs) = rs"
  by (induction rs) simp_all

lemma loc_self:
  assumes "distinct (index rs)"
  shows "loc rs (index rs) = rs"
proof -
  have h: "map (\<lambda>r. filter (\<lambda>x. stock_id x = stock_id r) rs) rs = map (\<lambda>r. [r]) rs"
    using filter_single [OF assms] by (intro map_cong) simp_all
  have "loc rs (index rs) = concat (map (\<lambda>r. filter (\<lambda>x. stock_id x = stock_id r) rs) rs)"
    by (simp add: loc_def index_def comp_def)
  also have "\<dots> = concat (map (\<lambda>r. [r]) rs)"
    by (simp only: h)
  also have "\<dots> = rs"
    by (rule concat_singletons)
  finally show ?thesis .
qed

lemma index_difference_empty: "distinct xs \<Longrightarrow> index_difference xs [] = xs"
  by (simp add: index_difference_def unique_distinct)

lemma fund_has_rows:
  assumes "compare_holdings df_curr df_prev = (c', p', Inr changes)" "map_of changes etf = Some d"
  shows "select_ETF (tagged_rows df_curr) etf \<noteq> []"
proof -
  have "map fst changes = unique (map fst (tagged_rows df_curr))"
    using assms(1) by (rule compare_holdings_keys)
  moreover have "etf \<in> set (map fst changes)"
    using assms(2) by (metis map_of_SomeD set_map image_eqI fst_conv)
  ultimately have "etf \<in> fst ` set (tagged_rows df_curr)"
    by (simp add: set_unique)
  then obtain tr where "tr \<in> set (tagged_rows df_curr)" "fst tr = etf"
    by auto
  then have "snd tr \<in> set (select_ETF (tagged_rows df_curr) etf)"
    by (auto simp: select_ETF_def)
  then show ?thesis by auto
qed


lemma exit_order:
  assumes "compare_etf c1 p1 = Inr d1" "compare_etf c2 p2 = Inr d2"
    and "mset c2 = mset c1" "mset p2 = mset p1"
    and "distinct (index c1)" "distinct (index p1)" "c1 \<noteq> []"
  shows "sorted (index (d_exit d1)) \<and> d_exit d2 = d_exit d1"
proof -
  let ?ks = "index_difference (index p1) (index c1)"
  have n: "index c1 \<noteq> []" using assms(7) by (simp add: index_def)
  have "index (loc p1 ?ks) = ?ks"
    using assms(6) by (rule index_loc_distinct) (auto simp: set_index_difference)
  moreover have "sorted ?ks"
    using n by (rule sorted_index_difference)
  ultimately have a: "sorted (index (d_exit d1))"
    by (simp add: compare_etf_exit [OF assms(1)])
  have "index_difference (index p2) (index c2) = ?ks"
    using index_perm [OF assms(4)] index_perm [OF assms(3)] assms(6) n
    by (rule index_difference_perm)
  then have "d_exit d2 = d_exit d1"
    by (simp add: compare_etf_exit [OF assms(1)] compare_etf_exit [OF assms(2)]
        loc_perm [OF assms(4,6)])
  with a show ?thesis by simp
qed

lemma new_order:
  assumes "compare_etf c1 p1 = Inr d1" "compare_etf c2 p2 = Inr d2"
    and "mset c2 = mset c1" "mset p2 = mset p1"
    and "distinct (index c1)" "distinct (index p1)" "p1 \<noteq> []"
  shows "sorted (index (d_new d1)) \<and> d_new d2 = d_new d1"
proof -
  let ?ks = "index_difference (index c1) (index p1)"
  have n: "index p1 \<noteq> []" using assms(7) by (simp add: index_def)
  have "index (loc c1 ?ks) = ?ks"
    using assms(5) by (rule index_loc_distinct) (auto simp: set_index_difference)
  moreover have "sorted ?ks"
    using n by (rule sorted_index_difference)
  ultimately have a: "sorted (index (d_new d1))"
    by (simp add: compare_etf_new [OF assms(1)])
  have "index_difference (index c2) (index p2) = ?ks"
    using index_perm [OF assms(3)] index_perm [OF assms(4)] assms(5) n
    by (rule index_difference_perm)
  then have "d_new d2 = d_new d1"
    by (simp add: compare_etf_new [OF assms(1)] compare_etf_new [OF assms(2)]
        loc_perm [OF assms(3,5)])
  with a show ?thesis by simp
qed

lemma new_all:
  assumes "compare_etf c [] = Inr d" "distinct (index c)"
  shows "d_new d = c"
proof -
  have "index_difference (index c) (index []) = index c"
    using assms(2) by (simp add: index_def index_difference_empty)
  then show ?thesis
    by (simp add: compare_etf_new [OF assms(1)] loc_self [OF assms(2)])
qed

text \<open>
  C10 (as amended). For tables with unique stock codes in the fund: Exited is emitted in
  ascending order of \<open>stock_id\<close>, and so is Entered whenever the previous table has at
  least one row of the fund; in these cases the emitted tables are the same for any
  permutation of the rows of either input. When the previous table has no row of the
  fund, Entered is the fund's rows of the current table, in table order.
\<close>

theorem entered_exited_order:
  assumes "compare_holdings c1 p1 = (c1', p1', Inr ch1)" and "map_of ch1 etf = Some d1"
    and "compare_holdings c2 p2 = (c2', p2', Inr ch2)" and "map_of ch2 etf = Some d2"
    and "mset (tagged_rows c2) = mset (tagged_rows c1)"
    and "mset (tagged_rows p2) = mset (tagged_rows p1)"
    and "distinct (index (select_ETF (tagged_rows c1) etf))"
    and "distinct (index (select_ETF (tagged_rows p1) etf))"
  shows "sorted (index (d_exit d1)) \<and> d_exit d2 = d_exit d1
       \<and> (select_ETF (tagged_rows p1) etf \<noteq> [] \<longrightarrow>
            sorted (index (d_new d1)) \<and> d_new d2 = d_new d1)
       \<and> (select_ETF (tagged_rows p1) etf = [] \<longrightarrow>
            d_new d1 = select_ETF (tagged_rows c1) etf)"
proof -
  let ?c1 = "select_ETF (tagged_rows c1) etf" and ?p1 = "select_ETF (tagged_rows p1) etf"
  let ?c2 = "select_ETF (tagged_rows c2) etf" and ?p2 = "select_ETF (tagged_rows p2) etf"
  have e1: "compare_etf ?c1 ?p1 = Inr d1"
    using assms(1,2) by (rule compare_holdings_lookup)
  have e2: "compare_etf ?c2 ?p2 = Inr d2"
    using assms(3,4) by (rule compare_holdings_lookup)
  have mc: "mset ?c2 = mset ?c1"
    using assms(5) by (rule select_ETF_perm)
  have mp: "mset ?p2 = mset ?p1"
    using assms(6) by (rule select_ETF_perm)
  have ne: "?c1 \<noteq> []"
    using assms(1,2) by (rule fund_has_rows)
  have x: "sorted (index (d_exit d1)) \<and> d_exit d2 = d_exit d1"
    using e1 e2 mc mp assms(7,8) ne by (rule exit_order)
  have n: "?p1 \<noteq> [] \<Longrightarrow> sorted (index (d_new d1)) \<and> d_new d2 = d_new d1"
    using e1 e2 mc mp assms(7,8) by (rule new_order)
  have a: "?p1 = [] \<Longrightarrow> d_new d1 = ?c1"
    using e1 assms(7) by (simp add: new_all)
  show ?thesis
    using x n a by blast
qed

theorem entered_exited_order_witness:
  "mset (tagged_rows ex_curr_perm) = mset (tagged_rows ex_curr)
   \<and> mset (tagged_rows ex_prev_perm) = mset (tagged_rows ex_prev)
   \<and> select_ETF (tagged_rows ex_prev) ''00981A'' \<noteq> []
   \<and> sorted (index (d_exit ex_delta)) \<and> sorted (index (d_new ex_delta))
   \<and> mset (tagged_rows ex_newfund_perm) = mset (tagged_rows ex_newfund)
   \<and> select_ETF (tagged_rows ex_onefund) ''00980A'' = []
   \<and> d_new ex_newfund_delta = select_ETF (tagged_rows ex_newfund) ''00980A''"
proof -
  have m: "map_of [(''00981A'', ex_delta)] ''00981A'' = Some ex_delta"
    by simp
  have n: "map_of [(''00981A'', ex_empty_delta), (''00980A'', ex_newfund_delta)] ''00980A''
             = Some ex_newfund_delta"
    and n': "map_of [(''00981A'', ex_empty_delta), (''00980A'', ex_newfund_delta_perm)] ''00980A''
             = Some ex_newfund_delta_perm"
    by simp_all
  have p: "select_ETF (tagged_rows ex_prev) ''00981A'' \<noteq> []"
    by (simp add: ex_prev_def select_ETF_def)
  have q: "select_ETF (tagged_rows ex_onefund) ''00980A'' = []"
    by (simp add: ex_onefund_def select_ETF_def)
  have o: "mset (tagged_rows ex_onefund) = mset (tagged_rows ex_onefund)"
    by simp
  show ?thesis
    using entered_exited_order [OF compare_example m compare_example_perm m ex_perm(1,2)
        ex_distinct(1,2)]
      entered_exited_order [OF compare_newfund n compare_newfund_perm n' ex_perm(3) o
        ex_distinct(3,4)]
      ex_perm p q
    by simp
qed

text \<open>
  The claim as stated fails. The fund \<open>00980A\<close> has no row in the previous table; its
  Entered rows come in the order of the current table, 2317 before 2308, and in the
  opposite order when the two rows of the current table are exchanged.
\<close>

theorem entered_unsorted_counterexample:
  "snd (snd (compare_holdings ex_newfund ex_onefund))
     = Inr [(''00981A'', ex_empty_delta), (''00980A'', ex_newfund_delta)]
   \<and> index (d_new ex_newfund_delta) = [2317, 2308]
   \<and> snd (snd (compare_holdings ex_newfund_perm ex_onefund))
     = Inr [(''00981A'', ex_empty_delta), (''00980A'', ex_newfund_delta_perm)]
   \<and> index (d_new ex_newfund_delta_perm) = [2308, 2317]"
  by (simp add: compare_newfund compare_newfund_perm)
    (simp add: ex_newfund_delta_def ex_newfund_delta_perm_def index_def)

section \<open>The order of Changed\<close>













end
